theory Spec2Isabelle
  imports Complex_Main "HOL-Library.AList"
begin

section \<open>The metadata loader (lib/index.js) as HOL functions\<close>

text \<open>
  The loader parses a source file with Babel, visits every class declaration, looks for a
  decorator that is a call of \<open>Metadata\<close>, turns the call's first argument into a plain
  value, strips the decorator, validates the value and emits a \<open>.component.json\<close> file.
  The Babel parser and generator, Node's \<open>path\<close> and \<open>fs\<close> modules, \<open>JSON.stringify\<close> and
  the webpack loader context are not part of the repository: they are parameters here.
\<close>

subsection \<open>Values and syntax nodes\<close>

text \<open>
  The values \<open>extractValue\<close> can produce, and the options built from them. An object is
  its prototype and the list of its own properties in insertion order; an assignment to
  an existing key keeps the key's position. The prototype is \<open>Object.prototype\<close>, as for
  every object made by \<open>{}\<close>, or \<open>null\<close>, or another value of this type: an object literal
  can set it with the key \<open>__proto__\<close>. The prototype of an array is always
  \<open>Array.prototype\<close>. A number is the value of a numeric literal, a finite double that is
  not negative, taken as the real number it is.
\<close>

datatype jsval =
    JUndefined
  | JNull
  | JBool bool
  | JNum real
  | JStr string
  | JArr "jsval list"
  | JObj proto "(string \<times> jsval) list"
and proto =
    ObjectPrototype
  | NullPrototype
  | Proto jsval

text \<open>
  Babel expression nodes. \<open>OtherNode ty\<close> stands for a node of any other Babel type
  \<open>ty\<close> (member expressions, binary expressions, spread elements in argument and array
  position, ...): a node that has none of the attributes \<open>value\<close>, \<open>properties\<close>,
  \<open>elements\<close>, \<open>callee\<close>, \<open>arguments\<close> and \<open>name\<close>. A hole in an array literal is the
  element \<open>None\<close> (Babel stores \<open>null\<close> there).
\<close>

datatype node =
    StringLiteral string
  | NumericLiteral real
  | BooleanLiteral bool
  | NullLiteral
  | RegExpLiteral string string
  | BigIntLiteral string
  | TemplateLiteral "string list" "node list"
  | Identifier string
  | ObjectExpression "member list"
  | ArrayExpression "node option list"
  | CallExpression node "node list"
  | OtherNode string
and member =
    ObjectProperty node node
  | ObjectMethod node
  | SpreadElement node

datatype error = TypeError | SyntaxError

fun node_type :: "node \<Rightarrow> string" where
  "node_type (StringLiteral s) = ''StringLiteral''"
| "node_type (NumericLiteral r) = ''NumericLiteral''"
| "node_type (BooleanLiteral b) = ''BooleanLiteral''"
| "node_type NullLiteral = ''NullLiteral''"
| "node_type (RegExpLiteral p f) = ''RegExpLiteral''"
| "node_type (BigIntLiteral s) = ''BigIntLiteral''"
| "node_type (TemplateLiteral qs es) = ''TemplateLiteral''"
| "node_type (Identifier s) = ''Identifier''"
| "node_type (ObjectExpression ps) = ''ObjectExpression''"
| "node_type (ArrayExpression es) = ''ArrayExpression''"
| "node_type (CallExpression c as) = ''CallExpression''"
| "node_type (OtherNode ty) = ty"

text \<open>
  \<open>node.value\<close>: only string, numeric, boolean and bigint literals carry the attribute;
  reading it from any other node gives \<open>undefined\<close>.
\<close>

fun node_value :: "node \<Rightarrow> jsval" where
  "node_value (StringLiteral s) = JStr s"
| "node_value (NumericLiteral r) = JNum r"
| "node_value (BooleanLiteral b) = JBool b"
| "node_value (BigIntLiteral s) = JStr s"
| "node_value _ = JUndefined"

text \<open>\<open>node.name\<close>: an identifier's name, \<open>undefined\<close> on every other node.\<close>

fun node_name :: "node \<Rightarrow> jsval" where
  "node_name (Identifier s) = JStr s"
| "node_name _ = JUndefined"

text \<open>\<open>s.endsWith(t)\<close>\<close>

definition endsWith :: "string \<Rightarrow> string \<Rightarrow> bool" where
  "endsWith s t \<longleftrightarrow> length t \<le> length s \<and> drop (length s - length t) s = t"

text \<open>
  \<open>obj[prop.key.name]\<close>: the property key is the name of an identifier key; any other key
  node has no \<open>name\<close>, and \<open>undefined\<close> as a key is the string \<open>undefined\<close>.
\<close>

definition key_string :: "node \<Rightarrow> string" where
  "key_string k = (case node_name k of JStr s \<Rightarrow> s | _ \<Rightarrow> ''undefined'')"

text \<open>
  What a write to the key \<open>__proto__\<close> finds when the object has no own property of that
  name and the lookup goes up the prototype chain: the accessor of \<open>Object.prototype\<close>,
  unless the chain ends in \<open>null\<close> before, or an object on it has an own property called
  \<open>__proto__\<close>. \<open>inherits_accessor p\<close> is the lookup from the prototype \<open>p\<close>,
  \<open>finds_accessor v\<close> the lookup from the object \<open>v\<close>.
\<close>

fun finds_accessor :: "jsval \<Rightarrow> bool"
and inherits_accessor :: "proto \<Rightarrow> bool"
where
  "finds_accessor (JObj p kvs) \<longleftrightarrow> ''__proto__'' \<notin> set (map fst kvs) \<and> inherits_accessor p"
| "finds_accessor v \<longleftrightarrow> True"
| "inherits_accessor ObjectPrototype \<longleftrightarrow> True"
| "inherits_accessor NullPrototype \<longleftrightarrow> False"
| "inherits_accessor (Proto v) \<longleftrightarrow> finds_accessor v"

text \<open>
  \<open>obj[k] = v\<close> on the object with prototype \<open>p\<close> and own properties \<open>kvs\<close>. Every property
  that the object can inherit here is a writable data property, the accessor \<open>__proto__\<close>
  of \<open>Object.prototype\<close> apart, so the write sets an own property, unless the key is
  \<open>__proto__\<close>, the object has no own property of that name and the lookup finds the
  accessor. The accessor's setter makes an object, an array or \<open>null\<close> the new prototype
  and ignores any other value; it sets no own property.
\<close>

fun assign ::
  "proto \<times> (string \<times> jsval) list \<Rightarrow> string \<Rightarrow> jsval \<Rightarrow> proto \<times> (string \<times> jsval) list" where
  "assign (p, kvs) k v =
     (if k = ''__proto__'' \<and> ''__proto__'' \<notin> set (map fst kvs) \<and> inherits_accessor p then
        (case v of
           JObj q ws \<Rightarrow> (Proto v, kvs)
         | JArr vs \<Rightarrow> (Proto v, kvs)
         | JNull \<Rightarrow> (NullPrototype, kvs)
         | _ \<Rightarrow> (p, kvs))
      else (p, AList.update k v kvs))"

subsection \<open>extractValue\<close>

text \<open>
  The \<open>reduce\<close> over the properties and the \<open>map\<close> over the elements are the two helper
  functions; the accumulator of the \<open>reduce\<close> is the object under construction, started
  as \<open>{}\<close>. A spread member has no \<open>key\<close>, so \<open>prop.key.name\<close> raises; a method member
  has no \<open>value\<close>, and an array hole is \<open>null\<close>, so \<open>node.type\<close> raises on them.
\<close>

fun extractValue :: "node \<Rightarrow> error + jsval"
and reduce_properties ::
  "member list \<Rightarrow> proto \<times> (string \<times> jsval) list \<Rightarrow> error + proto \<times> (string \<times> jsval) list"
and map_elements :: "node option list \<Rightarrow> error + jsval list"
where
  "extractValue node =
     (if endsWith (node_type node) ''Literal'' then Inr (node_value node)
      else if node_type node = ''ObjectExpression'' then
        (case node of
           ObjectExpression props \<Rightarrow>
             (case reduce_properties props (ObjectPrototype, []) of
                Inl e \<Rightarrow> Inl e
              | Inr (p, obj) \<Rightarrow> Inr (JObj p obj))
         | _ \<Rightarrow> Inl TypeError)
      else if node_type node = ''ArrayExpression'' then
        (case node of
           ArrayExpression elts \<Rightarrow>
             (case map_elements elts of Inl e \<Rightarrow> Inl e | Inr vs \<Rightarrow> Inr (JArr vs))
         | _ \<Rightarrow> Inl TypeError)
      else Inr JNull)"
| "reduce_properties [] obj = Inr obj"
| "reduce_properties (prop # props) obj =
     (case prop of
        ObjectProperty key val \<Rightarrow>
          (case extractValue val of
             Inl e \<Rightarrow> Inl e
           | Inr v \<Rightarrow> reduce_properties props (assign obj (key_string key) v))
      | ObjectMethod key \<Rightarrow> Inl TypeError
      | SpreadElement arg \<Rightarrow> Inl TypeError)"
| "map_elements [] = Inr []"
| "map_elements (elt # elts) =
     (case elt of
        None \<Rightarrow> Inl TypeError
      | Some n \<Rightarrow>
          (case extractValue n of
             Inl e \<Rightarrow> Inl e
           | Inr v \<Rightarrow> (case map_elements elts of Inl e \<Rightarrow> Inl e | Inr vs \<Rightarrow> Inr (v # vs))))"

declare extractValue.simps [simp del]

subsection \<open>getMetadata\<close>

text \<open>
  A decorator node. \<open>ref\<close> is the identity of the JavaScript object: the visitor removes
  the matched decorator with \<open>x !== decorator\<close>, a comparison of references. The parser
  builds a fresh object for every decorator, so the references in one list are distinct.
\<close>

record decorator =
  ref :: nat
  expression :: node

fun callee :: "node \<Rightarrow> node option" where
  "callee (CallExpression c as) = Some c"
| "callee _ = None"

fun arguments :: "node \<Rightarrow> node list" where
  "arguments (CallExpression c as) = as"
| "arguments _ = []"

text \<open>
  The predicate of the \<open>filter\<close> in \<open>getMetadata\<close>. A node of type \<open>CallExpression\<close> is
  built by the constructor of that name, so it has a callee.
\<close>

definition is_Metadata_call :: "decorator \<Rightarrow> bool" where
  "is_Metadata_call d \<longleftrightarrow>
     node_type (expression d) = ''CallExpression'' \<and>
     (case callee (expression d) of Some c \<Rightarrow> node_name c = JStr ''Metadata'' | None \<Rightarrow> False)"

text \<open>
  \<open>null\<close> is \<open>None\<close>. Only the first match is looked at; when its argument list is empty
  the result is \<open>null\<close>, whatever follows it.
\<close>

definition getMetadata :: "decorator list \<Rightarrow> error + (decorator \<times> jsval) option" where
  "getMetadata decorators =
     (case filter is_Metadata_call decorators of
        [] \<Rightarrow> Inr None
      | d # _ \<Rightarrow>
          (case arguments (expression d) of
             [] \<Rightarrow> Inr None
           | options # _ \<Rightarrow>
               (case extractValue options of
                  Inl e \<Rightarrow> Inl e
                | Inr args \<Rightarrow> Inr (Some (d, args)))))"

subsection \<open>The host: loader context, path, fs, string conversion\<close>

text \<open>
  \<open>loader_context\<close> is \<open>loader.context\<close>, \<open>path_resolve\<close> is \<open>path.resolve\<close> on two strings,
  \<open>existsSync\<close> is \<open>fs.existsSync\<close> and \<open>ToString\<close> is the conversion of a number, an
  array or an object to a string in a template literal (it can raise on an object).
\<close>

record runtime =
  loader_context :: string
  path_resolve :: "string \<Rightarrow> string \<Rightarrow> string"
  existsSync :: "string \<Rightarrow> bool"
  ToString :: "jsval \<Rightarrow> error + string"

text \<open>
  The calls made on the loader. \<open>EmitFile f v\<close> is \<open>loader.emitFile(f, JSON.stringify(v,
  null, 4))\<close>: the effect keeps the value that is serialised, the file's content being its
  JSON text.
\<close>

datatype effect = EmitFile string jsval | EmitError string

text \<open>\<open>!v\<close> is \<open>\<not> truthy v\<close>. A numeric literal is never \<open>NaN\<close>.\<close>

fun truthy :: "jsval \<Rightarrow> bool" where
  "truthy JUndefined = False"
| "truthy JNull = False"
| "truthy (JBool b) = b"
| "truthy (JNum r) = (r \<noteq> 0)"
| "truthy (JStr s) = (s \<noteq> [])"
| "truthy (JArr vs) = True"
| "truthy (JObj p kvs) = True"

text \<open>
  \<open>options.k\<close>, where \<open>options\<close> is an object made by an object literal, given by its own
  properties, and \<open>k\<close> is a key that \<open>Object.prototype\<close> does not define.
\<close>

definition property :: "(string \<times> jsval) list \<Rightarrow> string \<Rightarrow> jsval" where
  "property obj k = (case map_of obj k of Some v \<Rightarrow> v | None \<Rightarrow> JUndefined)"

text \<open>
  \<open>v.k\<close> for a value that is neither \<open>undefined\<close> nor \<open>null\<close> and a key \<open>k\<close> that is neither
  an index nor \<open>length\<close> nor defined by a built-in prototype: an own property of an
  object, or else a property found along its prototype chain; \<open>undefined\<close> on a
  primitive and on an array.
\<close>

fun member_of :: "jsval \<Rightarrow> string \<Rightarrow> jsval"
and inherited :: "proto \<Rightarrow> string \<Rightarrow> jsval"
where
  "member_of (JObj p kvs) k = (case map_of kvs k of Some v \<Rightarrow> v | None \<Rightarrow> inherited p k)"
| "member_of v k = JUndefined"
| "inherited (Proto v) k = member_of v k"
| "inherited p k = JUndefined"

text \<open>\<open>options.env.context\<close>: reading \<open>context\<close> from \<open>undefined\<close> or \<open>null\<close> raises.\<close>

definition env_context :: "(string \<times> jsval) list \<Rightarrow> error + jsval" where
  "env_context options =
     (case property options ''env'' of
        JUndefined \<Rightarrow> Inl TypeError
      | JNull \<Rightarrow> Inl TypeError
      | env \<Rightarrow> Inr (member_of env ''context''))"

text \<open>
  \<open>path.resolve(a, b)\<close> raises a \<open>TypeError\<close> on an argument that is not a string. The
  first argument is \<open>loader.context\<close>, a string, in every call the loader makes.
\<close>

definition resolve :: "runtime \<Rightarrow> jsval \<Rightarrow> jsval \<Rightarrow> error + string" where
  "resolve rt a b =
     (case (a, b) of
        (JStr x, JStr y) \<Rightarrow> Inr (path_resolve rt x y)
      | _ \<Rightarrow> Inl TypeError)"

text \<open>The value of \<open>${v}\<close> in a template literal.\<close>

definition template_value :: "runtime \<Rightarrow> jsval \<Rightarrow> error + string" where
  "template_value rt v =
     (case v of
        JStr s \<Rightarrow> Inr s
      | JBool b \<Rightarrow> Inr (if b then ''true'' else ''false'')
      | JNull \<Rightarrow> Inr ''null''
      | JUndefined \<Rightarrow> Inr ''undefined''
      | _ \<Rightarrow> ToString rt v)"

subsection \<open>validateOptions\<close>

text \<open>
  The result is the returned boolean, or the error raised, together with the calls of
  \<open>loader.emitError\<close> made on the way.
\<close>

definition validateOptions ::
  "runtime \<Rightarrow> (string \<times> jsval) list \<Rightarrow> string \<Rightarrow> (error + bool) \<times> effect list" where
  "validateOptions rt options name =
     (if \<not> truthy (property options ''name'') then
        (Inr False, [EmitError (''name must be specified for '' @ name)])
      else if \<not> truthy (property options ''thumbnail'') then
        (Inr False, [EmitError (''thumbnail must be specified for '' @ name)])
      else
        (case env_context options of
           Inl e \<Rightarrow> (Inl e, [])
         | Inr ctx \<Rightarrow>
             (case resolve rt ctx (property options ''thumbnail'') of
                Inl e \<Rightarrow> (Inl e, [])
              | Inr filePath \<Rightarrow>
                  if \<not> existsSync rt filePath then
                    (Inr False,
                     [EmitError (''Missing thumbnail ('' @ filePath @ '') for '' @ name @
                                 '', does not exist.'')])
                  else (Inr True, []))))"

subsection \<open>The class visitor\<close>

text \<open>
  The attributes of a class declaration: \<open>class_id\<close> is the name of \<open>node.id\<close>, \<open>None\<close>
  when \<open>node.id\<close> is \<open>null\<close> (an anonymous default export); \<open>decorators\<close> is \<open>None\<close> when
  the node has no such attribute.
\<close>

record class_node =
  class_id :: "string option"
  decorators :: "decorator list option"
  superClass :: "node option"

text \<open>\<open>node.decorators || []\<close>\<close>

definition decorators_or_empty :: "class_node \<Rightarrow> decorator list" where
  "decorators_or_empty c = (case decorators c of Some ds \<Rightarrow> ds | None \<Rightarrow> [])"

text \<open>
  The removal of the matched decorator: the \<open>filter\<close> by reference, then the \<open>delete\<close> of
  the attribute when nothing is left.
\<close>

definition strip_decorator :: "class_node \<Rightarrow> decorator \<Rightarrow> class_node" where
  "strip_decorator c d =
     (let ds = filter (\<lambda>x. ref x \<noteq> ref d) (decorators_or_empty c)
      in if length ds = 0 then c\<lparr>decorators := None\<rparr> else c\<lparr>decorators := Some ds\<rparr>)"

text \<open>Decimal digits of an array index, for the keys an array or a string spreads to.\<close>

fun index_key :: "nat \<Rightarrow> string" where
  "index_key n =
     (if n < 10 then [''0123456789'' ! n]
      else index_key (n div 10) @ [''0123456789'' ! (n mod 10)])"

declare index_key.simps [simp del]

text \<open>
  The own enumerable properties \<open>...args\<close> copies: those of an object, the indexed
  elements of an array, the indexed characters of a string, none of any other value.
  (JavaScript lists index keys before the other keys; the order kept here is that of the
  writes. No property is looked up by position, and index keys come from a string or an
  array argument only, whose options have no \<open>thumbnail\<close> and are never emitted.)
\<close>

definition own_properties :: "jsval \<Rightarrow> (string \<times> jsval) list" where
  "own_properties v =
     (case v of
        JObj p kvs \<Rightarrow> kvs
      | JArr vs \<Rightarrow> zip (map index_key [0..<length vs]) vs
      | JStr s \<Rightarrow> zip (map index_key [0..<length s]) (map (\<lambda>c. JStr [c]) s)
      | _ \<Rightarrow> [])"

text \<open>
  The own properties of \<open>{ name, ...args, env: { context: loader.context } }\<close>. An object
  literal defines its properties, so a copied property called \<open>__proto__\<close> is an own
  property like any other.
\<close>

definition make_options :: "runtime \<Rightarrow> string \<Rightarrow> jsval \<Rightarrow> (string \<times> jsval) list" where
  "make_options rt name args =
     AList.update ''env'' (JObj ObjectPrototype [(''context'', JStr (loader_context rt))])
       (fold (\<lambda>(k, v) obj. AList.update k v obj) (own_properties args) [(''name'', JStr name)])"

text \<open>
  The \<open>ClassDeclaration\<close> visitor. It returns the class node as the visitor leaves it, or
  the error raised, and the calls of \<open>emitError\<close> and \<open>emitFile\<close> in order.
\<close>

definition visit_ClassDeclaration ::
  "runtime \<Rightarrow> class_node \<Rightarrow> (error + class_node) \<times> effect list" where
  "visit_ClassDeclaration rt node =
     (case class_id node of
        None \<Rightarrow> (Inl TypeError, [])
      | Some name \<Rightarrow>
          (case getMetadata (decorators_or_empty node) of
             Inl e \<Rightarrow> (Inl e, [])
           | Inr None \<Rightarrow> (Inr node, [])
           | Inr (Some (decorator, args)) \<Rightarrow>
               (let node' = strip_decorator node decorator;
                    options = make_options rt name args
                in case validateOptions rt options name of
                     (Inl e, es) \<Rightarrow> (Inl e, es)
                   | (Inr False, es) \<Rightarrow> (Inr node', es)
                   | (Inr True, es) \<Rightarrow>
                       (case template_value rt (property options ''name'') of
                          Inl e \<Rightarrow> (Inl e, es)
                        | Inr s \<Rightarrow>
                            (Inr node',
                             es @ [EmitFile (s @ ''.component.json'')
                                     (JObj ObjectPrototype options)])))))"

subsection \<open>Traversal and the loader function\<close>

text \<open>
  The syntax tree as far as the traversal is concerned: a class declaration with its
  attributes and the nodes nested in it, or any other node with its children, both in
  the order in which the traversal reaches them. \<open>traverse\<close> calls the visitor when it
  enters a class declaration, before it descends, and stops at the first error raised.
  The expressions of the decorators are values of type \<open>node\<close>: they hold no class
  declaration of their own.
\<close>

datatype tree =
    ClassDeclaration class_node "tree list"
  | Other string "tree list"

fun traverse :: "runtime \<Rightarrow> tree \<Rightarrow> (error + tree) \<times> effect list"
and traverse_list :: "runtime \<Rightarrow> tree list \<Rightarrow> (error + tree list) \<times> effect list"
where
  "traverse rt (ClassDeclaration node body) =
     (case visit_ClassDeclaration rt node of
        (Inl e, es) \<Rightarrow> (Inl e, es)
      | (Inr node', es) \<Rightarrow>
          (case traverse_list rt body of
             (Inl e, es') \<Rightarrow> (Inl e, es @ es')
           | (Inr body', es') \<Rightarrow> (Inr (ClassDeclaration node' body'), es @ es')))"
| "traverse rt (Other ty children) =
     (case traverse_list rt children of
        (Inl e, es) \<Rightarrow> (Inl e, es)
      | (Inr children', es) \<Rightarrow> (Inr (Other ty children'), es))"
| "traverse_list rt [] = (Inr [], [])"
| "traverse_list rt (t # ts) =
     (case traverse rt t of
        (Inl e, es) \<Rightarrow> (Inl e, es)
      | (Inr t', es) \<Rightarrow>
          (case traverse_list rt ts of
             (Inl e, es') \<Rightarrow> (Inl e, es @ es')
           | (Inr ts', es') \<Rightarrow> (Inr (t' # ts'), es @ es')))"

text \<open>
  \<open>module.exports\<close>: parse, traverse, generate. \<open>parse\<close> is \<open>parser.parse\<close> with the
  loader's options (it raises on a syntax error), \<open>generate\<close> is the \<open>code\<close> of
  \<open>generator(ast)\<close>.
\<close>

definition transform ::
  "(string \<Rightarrow> error + tree) \<Rightarrow> (tree \<Rightarrow> string) \<Rightarrow> runtime \<Rightarrow> string \<Rightarrow>
   (error + string) \<times> effect list" where
  "transform parse generate rt source =
     (case parse source of
        Inl e \<Rightarrow> (Inl e, [])
      | Inr ast \<Rightarrow>
          (case traverse rt ast of
             (Inl e, es) \<Rightarrow> (Inl e, es)
           | (Inr ast', es) \<Rightarrow> (Inr (generate ast'), es)))"

subsection \<open>The sample file and other small inputs\<close>

text \<open>
  A host for the examples: the context directory is \<open>/repo/sample\<close>, a path is resolved by
  joining it to the context, and the only file that exists is the sample thumbnail.
\<close>

definition sample_runtime :: runtime where
  "sample_runtime =
     \<lparr>loader_context = ''/repo/sample'',
      path_resolve = (\<lambda>from to. from @ ''/'' @ (if take 2 to = ''./'' then drop 2 to else to)),
      existsSync = (\<lambda>p. p = ''/repo/sample/sample.png''),
      ToString = (\<lambda>v. Inr ''[object Object]'')\<rparr>"

text \<open>The decorator call of \<open>SampleComponent\<close> in sample/index.js.\<close>

definition SampleComponent_Metadata :: node where
  "SampleComponent_Metadata =
     CallExpression (Identifier ''Metadata'')
       [ObjectExpression
          [ObjectProperty (Identifier ''name'') (StringLiteral ''Sample''),
           ObjectProperty (Identifier ''thumbnail'') (StringLiteral ''./sample.png''),
           ObjectProperty (Identifier ''description'') (StringLiteral ''A Sample Component''),
           ObjectProperty (Identifier ''props'')
             (ArrayExpression
                [Some (ObjectExpression
                   [ObjectProperty (Identifier ''name'') (StringLiteral ''title''),
                    ObjectProperty (Identifier ''label'') (StringLiteral ''Title''),
                    ObjectProperty (Identifier ''type'') (StringLiteral ''string'')]),
                 Some (ObjectExpression
                   [ObjectProperty (Identifier ''name'') (StringLiteral ''message''),
                    ObjectProperty (Identifier ''label'') (StringLiteral ''Message''),
                    ObjectProperty (Identifier ''type'') (StringLiteral ''string'')])])]]"

definition SampleComponent :: class_node where
  "SampleComponent =
     \<lparr>class_id = Some ''SampleComponent'',
      decorators = Some [\<lparr>ref = 0, expression = SampleComponent_Metadata\<rparr>],
      superClass = None\<rparr>"

text \<open>The decorator call of \<open>TestComponent\<close> in sample/index.js.\<close>

definition TestComponent_Metadata :: node where
  "TestComponent_Metadata =
     CallExpression (Identifier ''Metadata'')
       [ObjectExpression
          [ObjectProperty (Identifier ''thumbnail'') (StringLiteral ''./sample.png''),
           ObjectProperty (Identifier ''description'') (StringLiteral ''A Test Component''),
           ObjectProperty (Identifier ''props'')
             (ObjectExpression
                [ObjectProperty (Identifier ''title'') (StringLiteral ''string'')])]]"

definition TestComponent :: class_node where
  "TestComponent =
     \<lparr>class_id = Some ''TestComponent'',
      decorators = Some [\<lparr>ref = 1, expression = TestComponent_Metadata\<rparr>],
      superClass = None\<rparr>"

text \<open>sample/index.js as a tree: the import, then the two classes.\<close>

definition sample_index :: tree where
  "sample_index =
     Other ''Program''
       [Other ''ImportDeclaration'' [],
        ClassDeclaration SampleComponent [],
        ClassDeclaration TestComponent []]"

subsection \<open>Predicates on trees\<close>

text \<open>
  The keys of a list in the order of their first occurrence: the order in which an
  object gets its keys when they are written one after the other.
\<close>

fun first_occurrences :: "string list \<Rightarrow> string list" where
  "first_occurrences [] = []"
| "first_occurrences (k # ks) = k # filter (\<lambda>x. x \<noteq> k) (first_occurrences ks)"

text \<open>
  The class node \<open>c'\<close> is the class node \<open>c\<close> as the rewrite may leave it: \<open>c\<close> itself, or,
  when the first \<open>Metadata\<close> call of \<open>c\<close> has an argument, \<open>c\<close> with one attribute changed,
  \<open>decorators\<close>, from which that call is gone and nothing else, the attribute being
  absent when that call was the only decorator.
\<close>

definition class_rewritten :: "class_node \<Rightarrow> class_node \<Rightarrow> bool" where
  "class_rewritten c c' \<longleftrightarrow>
     c' = c \<or>
     (case filter is_Metadata_call (decorators_or_empty c) of
        [] \<Rightarrow> False
      | d # _ \<Rightarrow>
          arguments (expression d) \<noteq> [] \<and>
          c' = c\<lparr>decorators :=
                   if filter (\<lambda>x. ref x \<noteq> ref d) (decorators_or_empty c) = [] then None
                   else Some (filter (\<lambda>x. ref x \<noteq> ref d) (decorators_or_empty c))\<rparr>)"

text \<open>
  The tree \<open>t'\<close> is the tree \<open>t\<close> as the rewrite may leave it: the same nodes in the same
  places, every class declaration related to its original by \<open>class_rewritten\<close>.
\<close>

fun rewritten :: "tree \<Rightarrow> tree \<Rightarrow> bool"
and rewritten_list :: "tree list \<Rightarrow> tree list \<Rightarrow> bool"
where
  "rewritten (ClassDeclaration c body) (ClassDeclaration c' body') \<longleftrightarrow>
     class_rewritten c c' \<and> rewritten_list body body'"
| "rewritten (Other ty children) (Other ty' children') \<longleftrightarrow>
     ty = ty' \<and> rewritten_list children children'"
| "rewritten (ClassDeclaration c body) (Other ty' children') \<longleftrightarrow> False"
| "rewritten (Other ty children) (ClassDeclaration c' body') \<longleftrightarrow> False"
| "rewritten_list [] [] \<longleftrightarrow> True"
| "rewritten_list (t # ts) (t' # ts') \<longleftrightarrow> rewritten t t' \<and> rewritten_list ts ts'"
| "rewritten_list [] (t' # ts') \<longleftrightarrow> False"
| "rewritten_list (t # ts) [] \<longleftrightarrow> False"

text \<open>No class declaration of the tree has more than one \<open>Metadata\<close> call among its decorators.\<close>

fun single_Metadata :: "tree \<Rightarrow> bool" where
  "single_Metadata (ClassDeclaration node body) \<longleftrightarrow>
     length (filter is_Metadata_call (decorators_or_empty node)) \<le> 1 \<and>
     list_all single_Metadata body"
| "single_Metadata (Other ty children) \<longleftrightarrow> list_all single_Metadata children"

text \<open>The tree contains a class declaration whose \<open>id\<close> is \<open>null\<close>.\<close>

fun anonymous_class :: "tree \<Rightarrow> bool" where
  "anonymous_class (ClassDeclaration node body) \<longleftrightarrow>
     class_id node = None \<or> list_ex anonymous_class body"
| "anonymous_class (Other ty children) \<longleftrightarrow> list_ex anonymous_class children"

subsection \<open>Further small inputs\<close>

text \<open>sample/index.js after the loader: both decorators gone.\<close>

definition sample_rewritten :: tree where
  "sample_rewritten =
     Other ''Program''
       [Other ''ImportDeclaration'' [],
        ClassDeclaration (SampleComponent\<lparr>decorators := None\<rparr>) [],
        ClassDeclaration (TestComponent\<lparr>decorators := None\<rparr>) []]"

text \<open>
  The parser and the generator on the sample file, as a table: the file's text and the
  rewritten text are named, not spelled out.
\<close>

definition sample_parse :: "string \<Rightarrow> error + tree" where
  "sample_parse source =
     (if source = ''sample/index.js'' then Inr sample_index
      else if source = ''sample/index.js, rewritten'' then Inr sample_rewritten
      else Inl SyntaxError)"

definition sample_generate :: "tree \<Rightarrow> string" where
  "sample_generate ast =
     (if ast = sample_rewritten then ''sample/index.js, rewritten'' else ''other'')"

text \<open>
  \<open>@Metadata({ thumbnail: './sample.png' })
   @Metadata({ thumbnail: './sample.png', description: 'second' })
   class Twice {}\<close>
\<close>

definition Twice :: class_node where
  "Twice =
     \<lparr>class_id = Some ''Twice'',
      decorators = Some
        [\<lparr>ref = 0,
          expression = CallExpression (Identifier ''Metadata'')
            [ObjectExpression
               [ObjectProperty (Identifier ''thumbnail'') (StringLiteral ''./sample.png'')]]\<rparr>,
         \<lparr>ref = 1,
          expression = CallExpression (Identifier ''Metadata'')
            [ObjectExpression
               [ObjectProperty (Identifier ''thumbnail'') (StringLiteral ''./sample.png''),
                ObjectProperty (Identifier ''description'') (StringLiteral ''second'')]]\<rparr>],
      superClass = None\<rparr>"

text \<open>The class \<open>Twice\<close> with its first decorator gone, and the two files around it.\<close>

definition Twice_rewritten :: class_node where
  "Twice_rewritten = Twice\<lparr>decorators := Some (tl (decorators_or_empty Twice))\<rparr>"

definition twice_parse :: "string \<Rightarrow> error + tree" where
  "twice_parse source =
     (if source = ''twice.js'' then Inr (Other ''Program'' [ClassDeclaration Twice []])
      else if source = ''twice.js, rewritten''
        then Inr (Other ''Program'' [ClassDeclaration Twice_rewritten []])
      else Inl SyntaxError)"

definition twice_generate :: "tree \<Rightarrow> string" where
  "twice_generate ast =
     (if ast = Other ''Program'' [ClassDeclaration Twice_rewritten []]
        then ''twice.js, rewritten''
      else if ast = Other ''Program'' [ClassDeclaration (Twice\<lparr>decorators := None\<rparr>) []]
        then ''twice.js, rewritten twice''
      else ''other'')"

text \<open>\<open>@Metadata() @Metadata({ thumbnail: './sample.png' }) class EmptyFirst {}\<close>\<close>

definition EmptyFirst :: class_node where
  "EmptyFirst =
     \<lparr>class_id = Some ''EmptyFirst'',
      decorators = Some
        [\<lparr>ref = 0, expression = CallExpression (Identifier ''Metadata'') []\<rparr>,
         \<lparr>ref = 1,
          expression = CallExpression (Identifier ''Metadata'')
            [ObjectExpression
               [ObjectProperty (Identifier ''thumbnail'') (StringLiteral ''./sample.png'')]]\<rparr>],
      superClass = None\<rparr>"

text \<open>\<open>@Metadata({ description: 'No thumbnail' }) class NoThumbnail {}\<close>\<close>

definition NoThumbnail :: class_node where
  "NoThumbnail =
     \<lparr>class_id = Some ''NoThumbnail'',
      decorators = Some
        [\<lparr>ref = 0,
          expression = CallExpression (Identifier ''Metadata'')
            [ObjectExpression
               [ObjectProperty (Identifier ''description'') (StringLiteral ''No thumbnail'')]]\<rparr>],
      superClass = None\<rparr>"

text \<open>\<open>@Metadata({ thumbnail: true }) class BadThumbnail {}\<close>\<close>

definition BadThumbnail :: class_node where
  "BadThumbnail =
     \<lparr>class_id = Some ''BadThumbnail'',
      decorators = Some
        [\<lparr>ref = 0,
          expression = CallExpression (Identifier ''Metadata'')
            [ObjectExpression
               [ObjectProperty (Identifier ''thumbnail'') (BooleanLiteral True)]]\<rparr>],
      superClass = None\<rparr>"

text \<open>\<open>export default class {}\<close>, and a parser that knows this file only.\<close>

definition anonymous_export :: tree where
  "anonymous_export =
     Other ''Program''
       [Other ''ExportDefaultDeclaration''
          [ClassDeclaration \<lparr>class_id = None, decorators = None, superClass = None\<rparr> []]]"

definition anonymous_parse :: "string \<Rightarrow> error + tree" where
  "anonymous_parse source =
     (if source = ''anonymous.js'' then Inr anonymous_export else Inl SyntaxError)"

section \<open>Properties of extractValue\<close>

lemma extractValue_ObjectExpression:
  "extractValue (ObjectExpression ps) =
     (case reduce_properties ps (ObjectPrototype, []) of
        Inl e \<Rightarrow> Inl e
      | Inr (p, obj) \<Rightarrow> Inr (JObj p obj))"
  by (simp add: extractValue.simps endsWith_def)

lemma extractValue_ArrayExpression:
  "extractValue (ArrayExpression es) =
     (case map_elements es of Inl e \<Rightarrow> Inl e | Inr vs \<Rightarrow> Inr (JArr vs))"
  by (simp add: extractValue.simps endsWith_def)

lemma extractValue_StringLiteral: "extractValue (StringLiteral s) = Inr (JStr s)"
  by (simp add: extractValue.simps endsWith_def)

lemma extractValue_BooleanLiteral: "extractValue (BooleanLiteral b) = Inr (JBool b)"
  by (simp add: extractValue.simps endsWith_def)

text \<open>A write to any key but \<open>__proto__\<close> sets an own property and leaves the prototype.\<close>

lemma assign_plain:
  "k \<noteq> ''__proto__'' \<Longrightarrow> assign (p, kvs) k v = (p, AList.update k v kvs)"
  by simp

lemma distinct_assign:
  "distinct (map fst (snd acc)) \<Longrightarrow> distinct (map fst (snd (assign acc k v)))"
  by (cases acc) (auto simp: distinct_update split: jsval.splits)

text \<open>The keys of an extracted object are pairwise different.\<close>

lemma reduce_properties_distinct:
  "reduce_properties ps acc = Inr acc' \<Longrightarrow> distinct (map fst (snd acc)) \<Longrightarrow>
   distinct (map fst (snd acc'))"
proof (induction ps arbitrary: acc)
  case Nil
  then show ?case by simp
next
  case (Cons m ms)
  from Cons.prems(1) obtain key val v where m: "m = ObjectProperty key val"
    and ev: "extractValue val = Inr v"
    and r: "reduce_properties ms (assign acc (key_string key) v) = Inr acc'"
    by (auto split: member.splits sum.splits)
  from Cons.prems(2) have "distinct (map fst (snd (assign acc (key_string key) v)))"
    by (rule distinct_assign)
  with r show ?case by (rule Cons.IH)
qed

lemma update_keys_append:
  "map fst (AList.update k v kvs) =
     map fst kvs @ filter (\<lambda>x. x \<notin> set (map fst kvs)) [k]"
  by (simp add: update_keys)

lemma first_occurrences_append:
  "(ks @ filter (\<lambda>x. x \<notin> set ks) [k]) @
     filter (\<lambda>x. x \<notin> set (ks @ filter (\<lambda>x. x \<notin> set ks) [k])) (first_occurrences rest) =
   ks @ filter (\<lambda>x. x \<notin> set ks) (first_occurrences (k # rest))"
  by (auto intro: filter_cong)

text \<open>
  The \<open>reduce\<close> over \<open>key: value\<close> members with identifier keys other than \<open>__proto__\<close>,
  started from any accumulator: the prototype stays, every later write to a key overrides
  the earlier ones, and a key that is new goes to the end.
\<close>

lemma reduce_properties_mapping:
  assumes "list_all2 (\<lambda>(k, n) v. extractValue n = Inr v) kns vs"
      and "\<forall>(k, n) \<in> set kns. k \<noteq> ''__proto__''"
  shows "\<exists>obj'. reduce_properties (map (\<lambda>(k, n). ObjectProperty (Identifier k) n) kns) (p, obj)
             = Inr (p, obj') \<and>
           map_of obj' = map_of obj ++ map_of (rev (zip (map fst kns) vs)) \<and>
           map fst obj' =
             map fst obj @ filter (\<lambda>x. x \<notin> set (map fst obj)) (first_occurrences (map fst kns))"
  using assms
proof (induction kns vs arbitrary: obj rule: list_all2_induct)
  case Nil
  then show ?case by simp
next
  case (Cons kn kns v vs)
  obtain k n where kn: "kn = (k, n)" by (cases kn)
  from Cons.hyps kn have ev: "extractValue n = Inr v" by simp
  from Cons.prems kn have key: "k \<noteq> ''__proto__''"
    and rest: "\<forall>(k, n) \<in> set kns. k \<noteq> ''__proto__''" by auto
  let ?obj = "AList.update k v obj"
  from Cons.IH [OF rest, of ?obj]
  obtain obj' where
    r: "reduce_properties (map (\<lambda>(k, n). ObjectProperty (Identifier k) n) kns) (p, ?obj)
          = Inr (p, obj')"
    and m: "map_of obj' = map_of ?obj ++ map_of (rev (zip (map fst kns) vs))"
    and o: "map fst obj' =
              map fst ?obj @ filter (\<lambda>x. x \<notin> set (map fst ?obj)) (first_occurrences (map fst kns))"
    by blast
  have "reduce_properties (map (\<lambda>(k, n). ObjectProperty (Identifier k) n) (kn # kns)) (p, obj)
          = Inr (p, obj')"
    using kn ev r key by (simp add: key_string_def)
  moreover have "map_of obj' = map_of obj ++ map_of (rev (zip (map fst (kn # kns)) (v # vs)))"
    using m kn by (simp add: update_conv')
  moreover have "map fst obj' =
      map fst obj @ filter (\<lambda>x. x \<notin> set (map fst obj)) (first_occurrences (map fst (kn # kns)))"
    using o kn first_occurrences_append [of "map fst obj" k "map fst kns"]
    by (simp only: update_keys_append list.map fst_conv)
  ultimately show ?case by blast
qed

text \<open>
  Hence the value of an object literal of such members: an object with the prototype of
  \<open>{}\<close>, its keys in the order of their first occurrence, each with the value of its last
  occurrence.
\<close>

lemma extractValue_identifier_keys:
  assumes "list_all2 (\<lambda>(k, n) v. extractValue n = Inr v) kns vs"
      and "\<forall>(k, n) \<in> set kns. k \<noteq> ''__proto__''"
  shows "\<exists>obj. extractValue (ObjectExpression (map (\<lambda>(k, n). ObjectProperty (Identifier k) n) kns))
             = Inr (JObj ObjectPrototype obj) \<and>
           map fst obj = first_occurrences (map fst kns) \<and>
           map_of obj = map_of (rev (zip (map fst kns) vs)) \<and>
           distinct (map fst obj)"
proof -
  from reduce_properties_mapping [OF assms, of ObjectPrototype "[]"]
  obtain obj where
    r: "reduce_properties (map (\<lambda>(k, n). ObjectProperty (Identifier k) n) kns) (ObjectPrototype, [])
          = Inr (ObjectPrototype, obj)"
    and m: "map_of obj = map_of (rev (zip (map fst kns) vs))"
    and o: "map fst obj = first_occurrences (map fst kns)"
    by auto
  from reduce_properties_distinct [OF r] have "distinct (map fst obj)" by simp
  with r m o show ?thesis by (simp add: extractValue_ObjectExpression)
qed

lemma map_elements_ok:
  assumes "list_all2 (\<lambda>n v. extractValue n = Inr v) ns vs"
  shows "map_elements (map Some ns) = Inr vs"
  using assms by (induction ns vs rule: list_all2_induct) simp_all

text \<open>
  C2, as the code has it. A node whose type name does not end in \<open>Literal\<close> and is neither
  \<open>ObjectExpression\<close> nor \<open>ArrayExpression\<close> (an identifier, a call, a member or binary
  expression, a spread in argument or array position) is extracted to \<open>null\<close>. A node
  whose type name ends in \<open>Literal\<close> is extracted to its \<open>value\<close> attribute, \<open>undefined\<close>
  when it has none. So on no node other than an object or array literal does
  \<open>extractValue\<close> raise.
\<close>

theorem extractValue_unrecognised:
  "(\<not> endsWith (node_type n) ''Literal'' \<and> node_type n \<noteq> ''ObjectExpression'' \<and>
    node_type n \<noteq> ''ArrayExpression'' \<longrightarrow> extractValue n = Inr JNull) \<and>
   (endsWith (node_type n) ''Literal'' \<longrightarrow> extractValue n = Inr (node_value n)) \<and>
   (node_type n \<noteq> ''ObjectExpression'' \<and> node_type n \<noteq> ''ArrayExpression'' \<longrightarrow>
      (\<exists>v. extractValue n = Inr v))"
  by (simp add: extractValue.simps)

theorem extractValue_unrecognised_witness:
  "\<not> endsWith (node_type (OtherNode ''SpreadElement'')) ''Literal'' \<and>
   node_type (OtherNode ''SpreadElement'') \<noteq> ''ObjectExpression'' \<and>
   node_type (OtherNode ''SpreadElement'') \<noteq> ''ArrayExpression'' \<and>
   extractValue (OtherNode ''SpreadElement'') = Inr JNull \<and>
   endsWith (node_type (StringLiteral ''./sample.png'')) ''Literal'' \<and>
   extractValue (StringLiteral ''./sample.png'') = Inr (JStr ''./sample.png'')"
  using extractValue_unrecognised [of "OtherNode ''SpreadElement''"]
    extractValue_unrecognised [of "StringLiteral ''./sample.png''"]
  by (simp add: endsWith_def)

text \<open>
  C2 as stated fails on a template string: its node type is \<open>TemplateLiteral\<close>, which ends
  in \<open>Literal\<close>, so the first branch returns the node's \<open>value\<close> attribute, and a
  template literal has none. The result is \<open>undefined\<close>, not \<open>null\<close>.
\<close>

theorem extractValue_template_counterexample:
  "extractValue (TemplateLiteral [''sample.png''] []) = Inr JUndefined \<and>
   extractValue (TemplateLiteral [''sample.png''] []) \<noteq> Inr JNull"
  by (simp add: extractValue.simps endsWith_def)

text \<open>
  C5, as the code has it. Take an object literal whose members are all \<open>key: value\<close>
  properties with an identifier as key, none of them \<open>__proto__\<close>, and whose values are
  extracted without an error to \<open>vs\<close>. Its value is an object built in source order: its
  keys are the key names in the order of their first occurrence, pairwise different, and
  each key is mapped to the extracted value of its last occurrence. For an array literal
  without holes whose elements are extracted without an error to \<open>ws\<close>, the value is the
  array \<open>ws\<close>, in source order.
\<close>

theorem extractValue_object_array:
  "(list_all2 (\<lambda>(k, n) v. extractValue n = Inr v) kns vs \<and>
    (\<forall>(k, n) \<in> set kns. k \<noteq> ''__proto__'') \<longrightarrow>
    (\<exists>obj. extractValue (ObjectExpression (map (\<lambda>(k, n). ObjectProperty (Identifier k) n) kns))
              = Inr (JObj ObjectPrototype obj) \<and>
           map fst obj = first_occurrences (map fst kns) \<and>
           distinct (map fst obj) \<and>
           map_of obj = map_of (rev (zip (map fst kns) vs)))) \<and>
   (list_all2 (\<lambda>n v. extractValue n = Inr v) ns ws \<longrightarrow>
    extractValue (ArrayExpression (map Some ns)) = Inr (JArr ws))"
proof (intro conjI impI)
  assume "list_all2 (\<lambda>(k, n) v. extractValue n = Inr v) kns vs \<and>
    (\<forall>(k, n) \<in> set kns. k \<noteq> ''__proto__'')"
  then have "\<exists>obj. extractValue (ObjectExpression (map (\<lambda>(k, n). ObjectProperty (Identifier k) n) kns))
             = Inr (JObj ObjectPrototype obj) \<and>
           map fst obj = first_occurrences (map fst kns) \<and>
           map_of obj = map_of (rev (zip (map fst kns) vs)) \<and>
           distinct (map fst obj)"
    by (intro extractValue_identifier_keys) simp_all
  then show "\<exists>obj. extractValue (ObjectExpression (map (\<lambda>(k, n). ObjectProperty (Identifier k) n) kns))
              = Inr (JObj ObjectPrototype obj) \<and>
           map fst obj = first_occurrences (map fst kns) \<and>
           distinct (map fst obj) \<and>
           map_of obj = map_of (rev (zip (map fst kns) vs))"
    by blast
next
  assume "list_all2 (\<lambda>n v. extractValue n = Inr v) ns ws"
  then show "extractValue (ArrayExpression (map Some ns)) = Inr (JArr ws)"
    by (simp add: extractValue_ArrayExpression map_elements_ok)
qed

theorem extractValue_object_array_witness:
  "list_all2 (\<lambda>(k, n) v. extractValue n = Inr v)
     [(''title'', StringLiteral ''string''),
      (''label'', StringLiteral ''Title''),
      (''title'', BooleanLiteral True)]
     [JStr ''string'', JStr ''Title'', JBool True] \<and>
   list_all (\<lambda>(k, n). k \<noteq> ''__proto__'')
     [(''title'', StringLiteral ''string''),
      (''label'', StringLiteral ''Title''),
      (''title'', BooleanLiteral True)] \<and>
   list_all2 (\<lambda>n v. extractValue n = Inr v)
     [StringLiteral ''title'', BooleanLiteral False] [JStr ''title'', JBool False] \<and>
   first_occurrences [''title'', ''label'', ''title''] = [''title'', ''label''] \<and>
   extractValue (ObjectExpression
     [ObjectProperty (Identifier ''title'') (StringLiteral ''string''),
      ObjectProperty (Identifier ''label'') (StringLiteral ''Title''),
      ObjectProperty (Identifier ''title'') (BooleanLiteral True)])
     = Inr (JObj ObjectPrototype [(''title'', JBool True), (''label'', JStr ''Title'')]) \<and>
   extractValue (ArrayExpression [Some (StringLiteral ''title''), Some (BooleanLiteral False)])
     = Inr (JArr [JStr ''title'', JBool False])"
  using extractValue_object_array [of
      "[(''title'', StringLiteral ''string''),
        (''label'', StringLiteral ''Title''),
        (''title'', BooleanLiteral True)]"
      "[JStr ''string'', JStr ''Title'', JBool True]"
      "[StringLiteral ''title'', BooleanLiteral False]" "[JStr ''title'', JBool False]"]
  by (simp add: extractValue_StringLiteral extractValue_BooleanLiteral key_string_def
      extractValue_ObjectExpression extractValue_ArrayExpression)

text \<open>
  C5 as stated fails on an object literal with a spread member: the member has no \<open>key\<close>,
  so reading \<open>prop.key.name\<close> raises a \<open>TypeError\<close> and no mapping is produced. It fails
  on an array literal with a hole as well: the element is \<open>null\<close>, and reading its \<open>type\<close>
  raises.
\<close>

theorem extractValue_spread_counterexample:
  "extractValue (ObjectExpression
      [SpreadElement (Identifier ''defaults''),
       ObjectProperty (Identifier ''thumbnail'') (StringLiteral ''./sample.png'')]) = Inl TypeError \<and>
   extractValue (ArrayExpression [Some (StringLiteral ''title''), None]) = Inl TypeError"
  by (simp add: extractValue_ObjectExpression extractValue_ArrayExpression
      extractValue_StringLiteral)

section \<open>Properties of validateOptions\<close>

text \<open>
  C3, as the code has it. For options whose \<open>env.context\<close> is a string and whose
  \<open>thumbnail\<close> is a string or a falsy value, the validator returns without raising, and it
  checks three rules in order: \<open>name\<close> is truthy, \<open>thumbnail\<close> is truthy (here: a non-empty
  string \<open>t\<close>), and the path resolved from the context and \<open>t\<close> exists. It returns \<open>true\<close>
  with no message when all three hold; otherwise it returns \<open>false\<close> with exactly one
  message, that of the first rule that fails, which names the field and the class. The
  three messages are different.
\<close>

theorem validateOptions_rules:
  assumes "property options ''env'' = JObj p env"
      and "property env ''context'' = JStr ctx"
      and "property options ''thumbnail'' = JStr t \<or>
           (\<not> truthy (property options ''thumbnail'') \<and> t = [])"
  shows "\<exists>ok es. validateOptions rt options name = (Inr ok, es) \<and>
           (ok \<longleftrightarrow> truthy (property options ''name'') \<and> t \<noteq> [] \<and>
                  existsSync rt (path_resolve rt ctx t)) \<and>
           (ok \<longrightarrow> es = []) \<and>
           (\<not> truthy (property options ''name'') \<longrightarrow>
              es = [EmitError (''name must be specified for '' @ name)]) \<and>
           (truthy (property options ''name'') \<and> t = [] \<longrightarrow>
              es = [EmitError (''thumbnail must be specified for '' @ name)]) \<and>
           (truthy (property options ''name'') \<and> t \<noteq> [] \<and>
            \<not> existsSync rt (path_resolve rt ctx t) \<longrightarrow>
              es = [EmitError (''Missing thumbnail ('' @ path_resolve rt ctx t @ '') for '' @
                               name @ '', does not exist.'')]) \<and>
           distinct [''name must be specified for '' @ name,
                     ''thumbnail must be specified for '' @ name,
                     ''Missing thumbnail ('' @ path_resolve rt ctx t @ '') for '' @
                       name @ '', does not exist.'']"
proof -
  from assms(3) have th: "truthy (property options ''thumbnail'') \<longleftrightarrow> t \<noteq> []"
    by auto
  from assms(3) th have r: "t \<noteq> [] \<Longrightarrow> resolve rt (JStr ctx) (property options ''thumbnail'') =
      Inr (path_resolve rt ctx t)"
    by (auto simp: resolve_def)
  show ?thesis
    using assms(1,2) th r
    by (simp add: validateOptions_def env_context_def property_def split: option.splits)
qed

theorem validateOptions_rules_witness:
  "property (make_options sample_runtime ''TestComponent''
               (JObj ObjectPrototype [(''thumbnail'', JStr ''./missing.png'')])) ''env''
     = JObj ObjectPrototype [(''context'', JStr ''/repo/sample'')] \<and>
   property [(''context'', JStr ''/repo/sample'')] ''context'' = JStr ''/repo/sample'' \<and>
   (property (make_options sample_runtime ''TestComponent''
                (JObj ObjectPrototype [(''thumbnail'', JStr ''./missing.png'')])) ''thumbnail''
      = JStr ''./missing.png'' \<or>
    (\<not> truthy (property (make_options sample_runtime ''TestComponent''
                           (JObj ObjectPrototype [(''thumbnail'', JStr ''./missing.png'')])) ''thumbnail'') \<and>
     ''./missing.png'' = [])) \<and>
   validateOptions sample_runtime
     (make_options sample_runtime ''TestComponent'' (JObj ObjectPrototype [(''thumbnail'', JStr ''./missing.png'')]))
     ''TestComponent'' =
     (Inr False,
      [EmitError ''Missing thumbnail (/repo/sample/missing.png) for TestComponent, does not exist.''])"
  using validateOptions_rules [of
      "make_options sample_runtime ''TestComponent'' (JObj ObjectPrototype [(''thumbnail'', JStr ''./missing.png'')])"
      ObjectPrototype "[(''context'', JStr ''/repo/sample'')]" "''/repo/sample''" "''./missing.png''"
      sample_runtime "''TestComponent''"]
  by (auto simp add: make_options_def own_properties_def property_def sample_runtime_def)

text \<open>
  C3 as stated fails where it says that validation never throws: for
  \<open>Metadata({ thumbnail: true })\<close> on a class \<open>TestComponent\<close> the thumbnail passes the
  second check, since \<open>true\<close> is truthy, and \<open>path.resolve\<close> raises a \<open>TypeError\<close> on an
  argument that is not a string. No message is emitted.
\<close>

theorem validateOptions_throws_counterexample:
  "validateOptions sample_runtime
     (make_options sample_runtime ''TestComponent'' (JObj ObjectPrototype [(''thumbnail'', JBool True)]))
     ''TestComponent'' = (Inl TypeError, [])"
  by (simp add: validateOptions_def make_options_def own_properties_def property_def
      env_context_def resolve_def sample_runtime_def)

section \<open>Properties of the class visitor\<close>

lemma filter_ref_remove1:
  "distinct (map ref ds) \<Longrightarrow> d \<in> set ds \<Longrightarrow> filter (\<lambda>x. ref x \<noteq> ref d) ds = remove1 d ds"
proof (induction ds)
  case Nil
  then show ?case by simp
next
  case (Cons x xs)
  show ?case
  proof (cases "x = d")
    case True
    with Cons.prems have "\<forall>y \<in> set xs. ref y \<noteq> ref d" by (auto simp: image_iff)
    then have "filter (\<lambda>x. ref x \<noteq> ref d) xs = xs" by (simp add: filter_id_conv)
    with True show ?thesis by simp
  next
    case False
    with Cons.prems have "d \<in> set xs" "ref x \<noteq> ref d" by auto
    with Cons False show ?thesis by simp
  qed
qed

lemma getMetadata_Some_iff:
  "getMetadata ds = Inr (Some (d, args)) \<longleftrightarrow>
     (\<exists>later a as. filter is_Metadata_call ds = d # later \<and>
        arguments (expression d) = a # as \<and> extractValue a = Inr args)"
  by (auto simp: getMetadata_def split: list.splits sum.splits)

lemma getMetadata_None_iff:
  "getMetadata ds = Inr None \<longleftrightarrow>
     (filter is_Metadata_call ds = [] \<or>
      (\<exists>d later. filter is_Metadata_call ds = d # later \<and> arguments (expression d) = []))"
  by (auto simp: getMetadata_def split: list.splits sum.splits)





lemma Metadata_call_filter_stripped:
  "filter is_Metadata_call ds = [d] \<Longrightarrow>
   filter is_Metadata_call (filter (\<lambda>x. ref x \<noteq> ref d) ds) = []"
proof -
  assume a: "filter is_Metadata_call ds = [d]"
  have "filter is_Metadata_call (filter (\<lambda>x. ref x \<noteq> ref d) ds) =
        filter (\<lambda>x. ref x \<noteq> ref d) (filter is_Metadata_call ds)"
    by (simp add: conj_commute)
  with a show ?thesis by simp
qed

lemma decorators_strip:
  "decorators_or_empty (strip_decorator c d) = filter (\<lambda>x. ref x \<noteq> ref d) (decorators_or_empty c)"
  by (simp add: strip_decorator_def decorators_or_empty_def Let_def)

text \<open>The equations that evaluate the visitor on a concrete class.\<close>

lemmas visitor_defs =
  visit_ClassDeclaration_def getMetadata_def is_Metadata_call_def decorators_or_empty_def
  strip_decorator_def make_options_def own_properties_def validateOptions_def property_def
  env_context_def resolve_def template_value_def key_string_def
  extractValue_ObjectExpression extractValue_ArrayExpression extractValue_StringLiteral




text \<open>What the visitor does once the class has an identifier.\<close>

lemma validateOptions_False:
  "validateOptions rt options name = (Inr False, errs) \<Longrightarrow> \<exists>m. errs = [EmitError m]"
  by (auto simp: validateOptions_def split: if_splits sum.splits)

lemma validateOptions_True:
  "validateOptions rt options name = (Inr True, errs) \<Longrightarrow> errs = []"
  by (auto simp: validateOptions_def split: if_splits sum.splits)

lemma visit_ClassDeclaration_matched:
  assumes "class_id c = Some name"
      and "getMetadata (decorators_or_empty c) = Inr (Some (d, args))"
  shows "visit_ClassDeclaration rt c =
     (case validateOptions rt (make_options rt name args) name of
        (Inl e, es) \<Rightarrow> (Inl e, es)
      | (Inr False, es) \<Rightarrow> (Inr (strip_decorator c d), es)
      | (Inr True, es) \<Rightarrow>
          (case template_value rt (property (make_options rt name args) ''name'') of
             Inl e \<Rightarrow> (Inl e, es)
           | Inr s \<Rightarrow>
               (Inr (strip_decorator c d),
                es @ [EmitFile (s @ ''.component.json'') (JObj ObjectPrototype (make_options rt name args))])))"
  using assms by (simp add: visit_ClassDeclaration_def Let_def)

lemma visit_ClassDeclaration_absent:
  assumes "class_id c = Some name"
      and "getMetadata (decorators_or_empty c) = Inr None"
  shows "visit_ClassDeclaration rt c = (Inr c, [])"
  using assms by (simp add: visit_ClassDeclaration_def)

lemma visit_ClassDeclaration_Inr:
  assumes "visit_ClassDeclaration rt c = (Inr c', es)"
  shows "\<exists>name. class_id c = Some name \<and>
           ((getMetadata (decorators_or_empty c) = Inr None \<and> c' = c \<and> es = []) \<or>
            (\<exists>d args. getMetadata (decorators_or_empty c) = Inr (Some (d, args)) \<and>
               c' = strip_decorator c d \<and>
               ((\<exists>m. es = [EmitError m]) \<or>
                (\<exists>f. es = [EmitFile f (JObj ObjectPrototype (make_options rt name args))]))))"
proof (cases "class_id c")
  case None
  with assms show ?thesis by (simp add: visit_ClassDeclaration_def)
next
  case (Some name)
  show ?thesis
  proof (cases "getMetadata (decorators_or_empty c)")
    case (Inl e)
    with assms Some show ?thesis by (simp add: visit_ClassDeclaration_def)
  next
    case (Inr r)
    show ?thesis
    proof (cases r)
      case None
      with assms Some Inr show ?thesis by (simp add: visit_ClassDeclaration_def)
    next
      case (Some da)
      obtain d args where da: "da = (d, args)" by (cases da)
      have m: "getMetadata (decorators_or_empty c) = Inr (Some (d, args))"
        using Inr Some da by simp
      from assms visit_ClassDeclaration_matched [OF \<open>class_id c = Some name\<close> m, of rt]
      have "c' = strip_decorator c d \<and>
               ((\<exists>m. es = [EmitError m]) \<or>
                (\<exists>f. es = [EmitFile f (JObj ObjectPrototype (make_options rt name args))]))"
        by (auto split: prod.splits sum.splits bool.splits
            dest: validateOptions_False validateOptions_True)
      with m \<open>class_id c = Some name\<close> show ?thesis by blast
    qed
  qed
qed

lemma strip_decorator_removes: "d \<notin> set (decorators_or_empty (strip_decorator c d))"
  by (simp add: decorators_strip)

text \<open>
  C4, as the code has it. Take a class with an identifier on which \<open>getMetadata\<close> returns
  a match \<open>(d, args)\<close>, and let validation return \<open>ok\<close>, with the messages \<open>errs\<close>, rather
  than raise. Whenever the visitor completes, it returns the class with \<open>d\<close> stripped, and
  \<open>d\<close> is not among the decorators left. When validation returns \<open>false\<close>, the visitor
  completes, its effects are \<open>errs\<close>, a single \<open>emitError\<close> call and no \<open>emitFile\<close>, and
  the traversal goes on: once the traversal of the class's body has completed, the
  siblings are traversed, and their effects follow those of the class and of its body.
  When validation returns \<open>true\<close> and the name converts to a string, the visitor
  completes with \<open>d\<close> stripped and the artifact emitted.
\<close>

theorem rejected_annotation_stripped:
  assumes "class_id c = Some name"
      and "getMetadata (decorators_or_empty c) = Inr (Some (d, args))"
      and "validateOptions rt (make_options rt name args) name = (Inr ok, errs)"
  shows "(\<forall>c' es. visit_ClassDeclaration rt c = (Inr c', es) \<longrightarrow> c' = strip_decorator c d) \<and>
         decorators_or_empty (strip_decorator c d) =
           filter (\<lambda>x. ref x \<noteq> ref d) (decorators_or_empty c) \<and>
         d \<notin> set (decorators_or_empty (strip_decorator c d)) \<and>
         (\<not> ok \<longrightarrow>
            visit_ClassDeclaration rt c = (Inr (strip_decorator c d), errs) \<and>
            (\<exists>m. errs = [EmitError m]) \<and>
            (\<forall>body body' es1 siblings.
               traverse_list rt body = (Inr body', es1) \<longrightarrow>
               traverse_list rt (ClassDeclaration c body # siblings) =
                 (case traverse_list rt siblings of
                    (Inl e, es2) \<Rightarrow> (Inl e, errs @ es1 @ es2)
                  | (Inr siblings', es2) \<Rightarrow>
                      (Inr (ClassDeclaration (strip_decorator c d) body' # siblings'),
                       errs @ es1 @ es2)))) \<and>
         (ok \<longrightarrow>
            (\<forall>s. template_value rt (property (make_options rt name args) ''name'') = Inr s \<longrightarrow>
               visit_ClassDeclaration rt c =
                 (Inr (strip_decorator c d),
                  [EmitFile (s @ ''.component.json'')
                     (JObj ObjectPrototype (make_options rt name args))])))"
proof (intro conjI allI impI)
  fix c' es
  assume "visit_ClassDeclaration rt c = (Inr c', es)"
  from visit_ClassDeclaration_Inr [OF this] assms(2)
  show "c' = strip_decorator c d" by auto
next
  show "decorators_or_empty (strip_decorator c d) =
          filter (\<lambda>x. ref x \<noteq> ref d) (decorators_or_empty c)"
    by (rule decorators_strip)
next
  show "d \<notin> set (decorators_or_empty (strip_decorator c d))"
    by (rule strip_decorator_removes)
next
  assume "\<not> ok"
  with assms(3) have v: "validateOptions rt (make_options rt name args) name = (Inr False, errs)"
    by simp
  then show visit: "visit_ClassDeclaration rt c = (Inr (strip_decorator c d), errs)"
    by (simp add: visit_ClassDeclaration_matched [OF assms(1,2)])
  from v show "\<exists>m. errs = [EmitError m]" by (rule validateOptions_False)
  fix body body' es1 siblings
  assume "traverse_list rt body = (Inr body', es1)"
  with visit show "traverse_list rt (ClassDeclaration c body # siblings) =
                 (case traverse_list rt siblings of
                    (Inl e, es2) \<Rightarrow> (Inl e, errs @ es1 @ es2)
                  | (Inr siblings', es2) \<Rightarrow>
                      (Inr (ClassDeclaration (strip_decorator c d) body' # siblings'),
                       errs @ es1 @ es2))"
    by (simp split: prod.splits sum.splits)
next
  fix s
  assume "ok" and s: "template_value rt (property (make_options rt name args) ''name'') = Inr s"
  with assms(3) have v: "validateOptions rt (make_options rt name args) name = (Inr True, errs)"
    by simp
  then have "errs = []" by (rule validateOptions_True)
  with v s show "visit_ClassDeclaration rt c =
                 (Inr (strip_decorator c d),
                  [EmitFile (s @ ''.component.json'')
                     (JObj ObjectPrototype (make_options rt name args))])"
    by (simp add: visit_ClassDeclaration_matched [OF assms(1,2)])
qed

theorem rejected_annotation_stripped_witness:
  "class_id NoThumbnail = Some ''NoThumbnail'' \<and>
   getMetadata (decorators_or_empty NoThumbnail) =
     Inr (Some (hd (decorators_or_empty NoThumbnail),
                JObj ObjectPrototype [(''description'', JStr ''No thumbnail'')])) \<and>
   validateOptions sample_runtime
     (make_options sample_runtime ''NoThumbnail''
        (JObj ObjectPrototype [(''description'', JStr ''No thumbnail'')])) ''NoThumbnail'' =
     (Inr False, [EmitError ''thumbnail must be specified for NoThumbnail'']) \<and>
   visit_ClassDeclaration sample_runtime NoThumbnail =
     (Inr (NoThumbnail\<lparr>decorators := None\<rparr>),
      [EmitError ''thumbnail must be specified for NoThumbnail'']) \<and>
   traverse_list sample_runtime [ClassDeclaration NoThumbnail [], ClassDeclaration TestComponent []] =
     (Inr [ClassDeclaration (NoThumbnail\<lparr>decorators := None\<rparr>) [],
           ClassDeclaration (TestComponent\<lparr>decorators := None\<rparr>) []],
      [EmitError ''thumbnail must be specified for NoThumbnail'',
       EmitFile ''TestComponent.component.json''
         (JObj ObjectPrototype
            [(''name'', JStr ''TestComponent''),
             (''thumbnail'', JStr ''./sample.png''),
             (''description'', JStr ''A Test Component''),
             (''props'', JObj ObjectPrototype [(''title'', JStr ''string'')]),
             (''env'', JObj ObjectPrototype [(''context'', JStr ''/repo/sample'')])])])"
  using rejected_annotation_stripped [of NoThumbnail "''NoThumbnail''"
      "hd (decorators_or_empty NoThumbnail)"
      "JObj ObjectPrototype [(''description'', JStr ''No thumbnail'')]"
      sample_runtime False "[EmitError ''thumbnail must be specified for NoThumbnail'']"]
  by (simp add: visitor_defs sample_runtime_def NoThumbnail_def TestComponent_def
      TestComponent_Metadata_def)

text \<open>
  C4 as stated fails when validation raises. The class \<open>BadThumbnail\<close> carries
  \<open>Metadata({ thumbnail: true })\<close>: the annotation is matched, the thumbnail passes the
  truthiness test, and \<open>path.resolve\<close> raises a \<open>TypeError\<close> on it. The visitor raises, so
  no class with the annotation removed comes out of it, and the traversal stops there:
  the sibling \<open>TestComponent\<close> is not visited and its artifact is not emitted.
\<close>

theorem throwing_validation_counterexample:
  "getMetadata (decorators_or_empty BadThumbnail) =
     Inr (Some (hd (decorators_or_empty BadThumbnail),
                JObj ObjectPrototype [(''thumbnail'', JBool True)])) \<and>
   visit_ClassDeclaration sample_runtime BadThumbnail = (Inl TypeError, []) \<and>
   traverse_list sample_runtime
     [ClassDeclaration BadThumbnail [], ClassDeclaration TestComponent []] = (Inl TypeError, [])"
  by (simp add: visitor_defs sample_runtime_def BadThumbnail_def extractValue_BooleanLiteral)

text \<open>
  C6, as the code has it. Take a class with an identifier whose decorators are distinct
  objects, with two or more \<open>Metadata\<close> calls among them, the first of which, \<open>d\<close>, has an
  argument \<open>a\<close>, and on which the visitor completes. Then exactly \<open>d\<close> is removed; the
  later \<open>Metadata\<close> calls stay attached, in order; and the only effect is one call, an
  \<open>emitError\<close> or the \<open>emitFile\<close> of the options built from the value of \<open>a\<close>, so that
  nothing is emitted or reported for a later call.
\<close>

theorem first_match_only:
  assumes "class_id c = Some name"
      and "decorators c = Some ds" and "distinct (map ref ds)"
      and "filter is_Metadata_call ds = d # d' # later"
      and "arguments (expression d) = a # as"
      and "visit_ClassDeclaration rt c = (Inr c', es)"
  shows "decorators c' = Some (remove1 d ds) \<and>
         filter is_Metadata_call (remove1 d ds) = d' # later \<and>
         (\<exists>args. extractValue a = Inr args \<and>
            ((\<exists>m. es = [EmitError m]) \<or>
             (\<exists>f. es = [EmitFile f (JObj ObjectPrototype (make_options rt name args))])))"
proof -
  have ds: "decorators_or_empty c = ds"
    using assms(2) by (simp add: decorators_or_empty_def)
  from visit_ClassDeclaration_Inr [OF assms(6)] assms(1,4,5) ds
  obtain args where meta: "getMetadata ds = Inr (Some (d, args))"
    and c': "c' = strip_decorator c d"
    and es: "(\<exists>m. es = [EmitError m]) \<or> (\<exists>f. es = [EmitFile f (JObj ObjectPrototype (make_options rt name args))])"
    by (auto simp: getMetadata_None_iff getMetadata_Some_iff)
  from meta assms(4,5) have ev: "extractValue a = Inr args"
    by (auto simp: getMetadata_Some_iff)
  have "d \<in> set (filter is_Metadata_call ds)" "d' \<in> set (filter is_Metadata_call ds)"
    using assms(4) by simp_all
  then have mem: "d \<in> set ds" "d' \<in> set ds" by simp_all
  have filt: "filter (\<lambda>x. ref x \<noteq> ref d) ds = remove1 d ds"
    using assms(3) mem(1) by (rule filter_ref_remove1)
  have dist: "distinct ds"
    using assms(3) by (rule distinct_map [THEN iffD1, THEN conjunct1])
  have "distinct (filter is_Metadata_call ds)" using dist by simp
  with assms(4) have "d \<noteq> d'" by auto
  with mem(2) have "d' \<in> set (remove1 d ds)" by simp
  then have ne: "remove1 d ds \<noteq> []" by auto
  have dec: "decorators c' = Some (remove1 d ds)"
    using c' ds filt ne by (simp add: strip_decorator_def Let_def)
  have "distinct (map ref (filter is_Metadata_call ds))"
    using assms(3) by (rule distinct_map_filter)
  then have dm: "distinct (map ref (d # d' # later))"
    by (simp only: assms(4))
  have "filter is_Metadata_call (remove1 d ds) =
        filter (\<lambda>x. ref x \<noteq> ref d) (filter is_Metadata_call ds)"
    unfolding filt [symmetric] by (simp add: conj_commute)
  also have "\<dots> = filter (\<lambda>x. ref x \<noteq> ref d) (d # d' # later)"
    by (simp only: assms(4))
  also have "\<dots> = remove1 d (d # d' # later)"
    using dm by (rule filter_ref_remove1) simp
  finally have rest: "filter is_Metadata_call (remove1 d ds) = d' # later"
    by simp
  from dec rest ev es show ?thesis by blast
qed

theorem first_match_only_witness:
  "distinct (map ref (decorators_or_empty Twice)) \<and>
   filter is_Metadata_call (decorators_or_empty Twice) = decorators_or_empty Twice \<and>
   length (decorators_or_empty Twice) = 2 \<and>
   visit_ClassDeclaration sample_runtime Twice =
     (Inr (Twice\<lparr>decorators := Some [decorators_or_empty Twice ! 1]\<rparr>),
      [EmitFile ''Twice.component.json''
         (JObj ObjectPrototype [(''name'', JStr ''Twice''), (''thumbnail'', JStr ''./sample.png''),
                (''env'', JObj ObjectPrototype [(''context'', JStr ''/repo/sample'')])])])"
  using first_match_only [of Twice "''Twice''" "decorators_or_empty Twice"
      "decorators_or_empty Twice ! 0" "decorators_or_empty Twice ! 1" "[]"
      "ObjectExpression [ObjectProperty (Identifier ''thumbnail'') (StringLiteral ''./sample.png'')]"
      "[]" sample_runtime
      "Twice\<lparr>decorators := Some [decorators_or_empty Twice ! 1]\<rparr>"
      "[EmitFile ''Twice.component.json''
         (JObj ObjectPrototype [(''name'', JStr ''Twice''), (''thumbnail'', JStr ''./sample.png''),
                (''env'', JObj ObjectPrototype [(''context'', JStr ''/repo/sample'')])])]"]
  by (simp add: visitor_defs sample_runtime_def Twice_def)

text \<open>
  C6 as stated fails when the first \<open>Metadata\<close> call has no argument: \<open>getMetadata\<close>
  returns \<open>null\<close>, and the first annotation is not removed. Both decorators of
  \<open>EmptyFirst\<close> are \<open>Metadata\<close> calls, and the visitor leaves the class as it is.
\<close>

theorem empty_first_counterexample:
  "filter is_Metadata_call (decorators_or_empty EmptyFirst) = decorators_or_empty EmptyFirst \<and>
   length (decorators_or_empty EmptyFirst) = 2 \<and>
   visit_ClassDeclaration sample_runtime EmptyFirst = (Inr EmptyFirst, [])"
  by (simp add: visitor_defs sample_runtime_def EmptyFirst_def)



section \<open>Properties of the traversal and of the loader function\<close>

lemma visit_ClassDeclaration_rewritten:
  assumes "visit_ClassDeclaration rt c = (Inr c', es)"
  shows "class_rewritten c c'"
proof -
  from visit_ClassDeclaration_Inr [OF assms]
  consider "c' = c"
    | d args where "getMetadata (decorators_or_empty c) = Inr (Some (d, args))"
        "c' = strip_decorator c d"
    by blast
  then show ?thesis
  proof cases
    case 1
    then show ?thesis by (simp add: class_rewritten_def)
  next
    case 2
    from 2(1) obtain later where "filter is_Metadata_call (decorators_or_empty c) = d # later"
      and "arguments (expression d) \<noteq> []"
      by (auto simp: getMetadata_Some_iff)
    with 2(2) show ?thesis
      by (simp add: class_rewritten_def strip_decorator_def Let_def)
  qed
qed

lemma traverse_rewritten:
  "traverse rt t = (Inr t', es) \<Longrightarrow> rewritten t t'"
  "traverse_list rt ts = (Inr ts', es') \<Longrightarrow> rewritten_list ts ts'"
proof (induction rt t and rt ts arbitrary: t' es and ts' es' rule: traverse_traverse_list.induct)
  case (1 rt node body)
  then show ?case
    by (auto split: prod.splits sum.splits dest: visit_ClassDeclaration_rewritten)
next
  case (2 rt ty children)
  then show ?case by (auto split: prod.splits sum.splits)
next
  case (3 rt)
  then show ?case by simp
next
  case (4 rt t ts)
  then show ?case by (auto split: prod.splits sum.splits)
qed

text \<open>
  C7. When the visitor completes, the class node it returns is the node it was given, or
  that node with only its \<open>decorators\<close> attribute changed: the first \<open>Metadata\<close> call,
  which has an argument, is gone from it and every other decorator is kept, and the
  attribute itself is removed when no decorator is left. When the traversal completes,
  the tree it returns is the tree it was given, node for node, but for the class
  declarations so rewritten (\<open>rewritten\<close>).
\<close>

theorem rewrite_frame:
  "(visit_ClassDeclaration rt c = (Inr c', es) \<longrightarrow>
      c' = c \<or>
      (\<exists>d later. filter is_Metadata_call (decorators_or_empty c) = d # later \<and>
         arguments (expression d) \<noteq> [] \<and>
         c' = c\<lparr>decorators :=
                  if filter (\<lambda>x. ref x \<noteq> ref d) (decorators_or_empty c) = [] then None
                  else Some (filter (\<lambda>x. ref x \<noteq> ref d) (decorators_or_empty c))\<rparr>)) \<and>
   (traverse rt t = (Inr t', es') \<longrightarrow> rewritten t t')"
proof (intro conjI impI)
  assume "visit_ClassDeclaration rt c = (Inr c', es)"
  then have "class_rewritten c c'" by (rule visit_ClassDeclaration_rewritten)
  then show "c' = c \<or>
      (\<exists>d later. filter is_Metadata_call (decorators_or_empty c) = d # later \<and>
         arguments (expression d) \<noteq> [] \<and>
         c' = c\<lparr>decorators :=
                  if filter (\<lambda>x. ref x \<noteq> ref d) (decorators_or_empty c) = [] then None
                  else Some (filter (\<lambda>x. ref x \<noteq> ref d) (decorators_or_empty c))\<rparr>)"
    by (auto simp: class_rewritten_def split: list.splits)
next
  assume "traverse rt t = (Inr t', es')"
  then show "rewritten t t'" by (rule traverse_rewritten(1))
qed

theorem rewrite_frame_witness:
  "fst (visit_ClassDeclaration sample_runtime SampleComponent) =
     Inr (SampleComponent\<lparr>decorators := None\<rparr>) \<and>
   fst (traverse sample_runtime sample_index) = Inr sample_rewritten \<and>
   rewritten sample_index sample_rewritten \<and>
   \<not> rewritten (Other ''Program'' [ClassDeclaration Twice []])
               (Other ''Program'' [ClassDeclaration (Twice\<lparr>decorators := None\<rparr>) []]) \<and>
   \<not> rewritten (Other ''Program'' [ClassDeclaration EmptyFirst []])
               (Other ''Program'' [ClassDeclaration (EmptyFirst\<lparr>decorators := None\<rparr>) []])"
  using rewrite_frame [of sample_runtime SampleComponent "SampleComponent\<lparr>decorators := None\<rparr>"
      "snd (visit_ClassDeclaration sample_runtime SampleComponent)"
      sample_index sample_rewritten "snd (traverse sample_runtime sample_index)"]
  by (simp add: visitor_defs class_rewritten_def sample_runtime_def SampleComponent_def
      SampleComponent_Metadata_def TestComponent_def TestComponent_Metadata_def
      sample_index_def sample_rewritten_def EmptyFirst_def Twice_def)

lemma visit_ClassDeclaration_again:
  assumes "visit_ClassDeclaration rt c = (Inr c', es)"
      and "length (filter is_Metadata_call (decorators_or_empty c)) \<le> 1"
  shows "visit_ClassDeclaration rt c' = (Inr c', []) \<and>
         length (filter is_Metadata_call (decorators_or_empty c')) \<le> 1"
proof -
  from visit_ClassDeclaration_Inr [OF assms(1)]
  obtain name where name: "class_id c = Some name"
    and alt: "(getMetadata (decorators_or_empty c) = Inr None \<and> c' = c) \<or>
       (\<exists>d args. getMetadata (decorators_or_empty c) = Inr (Some (d, args)) \<and>
          c' = strip_decorator c d)"
    by blast
  from alt show ?thesis
  proof
    assume "getMetadata (decorators_or_empty c) = Inr None \<and> c' = c"
    with name assms(2) show ?thesis by (simp add: visit_ClassDeclaration_absent)
  next
    assume "\<exists>d args. getMetadata (decorators_or_empty c) = Inr (Some (d, args)) \<and>
          c' = strip_decorator c d"
    then obtain d args where m: "getMetadata (decorators_or_empty c) = Inr (Some (d, args))"
      and c': "c' = strip_decorator c d" by blast
    from m obtain later where "filter is_Metadata_call (decorators_or_empty c) = d # later"
      by (auto simp: getMetadata_Some_iff)
    with assms(2) have one: "filter is_Metadata_call (decorators_or_empty c) = [d]" by simp
    have none: "filter is_Metadata_call (decorators_or_empty c') = []"
      unfolding c' decorators_strip using one by (rule Metadata_call_filter_stripped)
    then have "getMetadata (decorators_or_empty c') = Inr None"
      by (simp add: getMetadata_None_iff)
    moreover have "class_id c' = Some name"
      using name c' by (simp add: strip_decorator_def Let_def)
    ultimately show ?thesis using none by (simp add: visit_ClassDeclaration_absent)
  qed
qed

lemma traverse_again:
  "traverse rt t = (Inr t', es) \<Longrightarrow> single_Metadata t \<Longrightarrow>
     traverse rt t' = (Inr t', []) \<and> single_Metadata t'"
  "traverse_list rt ts = (Inr ts', es') \<Longrightarrow> list_all single_Metadata ts \<Longrightarrow>
     traverse_list rt ts' = (Inr ts', []) \<and> list_all single_Metadata ts'"
proof (induction rt t and rt ts arbitrary: t' es and ts' es' rule: traverse_traverse_list.induct)
  case (1 rt node body)
  from "1.prems"(1) obtain node' es1 body' es2
    where v: "visit_ClassDeclaration rt node = (Inr node', es1)"
      and b: "traverse_list rt body = (Inr body', es2)"
      and t': "t' = ClassDeclaration node' body'"
    by (auto split: prod.splits sum.splits)
  from "1.prems"(2) have s: "length (filter is_Metadata_call (decorators_or_empty node)) \<le> 1"
    and sb: "list_all single_Metadata body" by simp_all
  from visit_ClassDeclaration_again [OF v s]
  have v': "visit_ClassDeclaration rt node' = (Inr node', [])"
    and s': "length (filter is_Metadata_call (decorators_or_empty node')) \<le> 1" by simp_all
  from "1.IH" [OF v [symmetric] refl b sb]
  have "traverse_list rt body' = (Inr body', []) \<and> list_all single_Metadata body'" .
  with v' s' t' show ?case by simp
next
  case (2 rt ty children)
  from "2.prems"(1) obtain children' where c: "traverse_list rt children = (Inr children', es)"
    and t': "t' = Other ty children'"
    by (auto split: prod.splits sum.splits)
  from "2.IH" [OF c] "2.prems"(2) t' show ?case by simp
next
  case (3 rt)
  then show ?case by simp
next
  case (4 rt t ts)
  from "4.prems"(1) obtain t1 es1 ts1 es2
    where a: "traverse rt t = (Inr t1, es1)"
      and b: "traverse_list rt ts = (Inr ts1, es2)"
      and ts': "ts' = t1 # ts1"
    by (auto split: prod.splits sum.splits)
  from "4.prems"(2) have st: "single_Metadata t" and sts: "list_all single_Metadata ts"
    by simp_all
  from "4.IH"(1) [OF a st]
  have 1: "traverse rt t1 = (Inr t1, []) \<and> single_Metadata t1" .
  from "4.IH"(2) [OF a [symmetric] refl b sts]
  have 2: "traverse_list rt ts1 = (Inr ts1, []) \<and> list_all single_Metadata ts1" .
  from 1 2 ts' show ?case by simp
qed

text \<open>
  C8, as the code has it. Take a source text on which the loader completes, whose tree
  has no class with more than one \<open>Metadata\<close> call, and let the parser read the generated
  text back as the rewritten tree. Then the loader applied to the generated text returns
  that text, and calls neither \<open>emitFile\<close> nor \<open>emitError\<close>.
\<close>

theorem transform_idempotent:
  assumes "parse source = Inr ast"
      and "traverse rt ast = (Inr ast', es)"
      and "single_Metadata ast"
      and "parse (generate ast') = Inr ast'"
  shows "transform parse generate rt source = (Inr (generate ast'), es) \<and>
         transform parse generate rt (generate ast') = (Inr (generate ast'), [])"
proof -
  from traverse_again(1) [OF assms(2,3)]
  have "traverse rt ast' = (Inr ast', [])" by simp
  with assms(1,2,4) show ?thesis by (simp add: transform_def)
qed

theorem transform_idempotent_witness:
  "sample_parse ''sample/index.js'' = Inr sample_index \<and>
   single_Metadata sample_index \<and>
   sample_parse (sample_generate sample_rewritten) = Inr sample_rewritten \<and>
   fst (transform sample_parse sample_generate sample_runtime ''sample/index.js'') =
     Inr ''sample/index.js, rewritten'' \<and>
   transform sample_parse sample_generate sample_runtime ''sample/index.js, rewritten'' =
     (Inr ''sample/index.js, rewritten'', [])"
  using transform_idempotent [of sample_parse "''sample/index.js''" sample_index sample_runtime
      sample_rewritten "snd (traverse sample_runtime sample_index)" sample_generate]
  by (simp add: visitor_defs sample_runtime_def SampleComponent_def SampleComponent_Metadata_def
      TestComponent_def TestComponent_Metadata_def sample_index_def sample_rewritten_def
      sample_parse_def sample_generate_def transform_def)

text \<open>
  C8 as stated fails on a class with two \<open>Metadata\<close> calls. The first run strips the first
  call and emits its artifact; the rewritten text still carries the second call, so the
  second run strips that one, returns another text and emits an artifact again.
\<close>

theorem second_pass_counterexample:
  "transform twice_parse twice_generate sample_runtime ''twice.js'' =
     (Inr ''twice.js, rewritten'',
      [EmitFile ''Twice.component.json''
         (JObj ObjectPrototype [(''name'', JStr ''Twice''), (''thumbnail'', JStr ''./sample.png''),
                (''env'', JObj ObjectPrototype [(''context'', JStr ''/repo/sample'')])])]) \<and>
   transform twice_parse twice_generate sample_runtime ''twice.js, rewritten'' =
     (Inr ''twice.js, rewritten twice'',
      [EmitFile ''Twice.component.json''
         (JObj ObjectPrototype [(''name'', JStr ''Twice''), (''thumbnail'', JStr ''./sample.png''),
                (''description'', JStr ''second''),
                (''env'', JObj ObjectPrototype [(''context'', JStr ''/repo/sample'')])])])"
  by (simp add: visitor_defs sample_runtime_def Twice_def Twice_rewritten_def twice_parse_def
      twice_generate_def transform_def)

lemma traverse_anonymous:
  "anonymous_class t \<Longrightarrow> \<exists>e es. traverse rt t = (Inl e, es)"
  "list_ex anonymous_class ts \<Longrightarrow> \<exists>e es. traverse_list rt ts = (Inl e, es)"
proof (induction rt t and rt ts rule: traverse_traverse_list.induct)
  case (1 rt node body)
  show ?case
  proof (cases "class_id node")
    case None
    then show ?thesis by (simp add: visit_ClassDeclaration_def)
  next
    case (Some name)
    with "1.prems" have ex: "list_ex anonymous_class body" by simp
    obtain r es1 where v: "visit_ClassDeclaration rt node = (r, es1)"
      by (cases "visit_ClassDeclaration rt node")
    show ?thesis
    proof (cases r)
      case (Inl e)
      with v show ?thesis by simp
    next
      case (Inr node')
      from "1.IH" [OF v [symmetric] Inr ex]
      obtain e es2 where "traverse_list rt body = (Inl e, es2)" by blast
      with v Inr show ?thesis by simp
    qed
  qed
next
  case (2 rt ty children)
  then obtain e es where "traverse_list rt children = (Inl e, es)" by auto
  then show ?case by simp
next
  case (3 rt)
  then show ?case by simp
next
  case (4 rt t ts)
  obtain r es1 where a: "traverse rt t = (r, es1)" by (cases "traverse rt t")
  show ?case
  proof (cases r)
    case (Inl e)
    with a show ?thesis by simp
  next
    case (Inr t1)
    with a "4.IH"(1) have "\<not> anonymous_class t" by auto
    with "4.prems" have "list_ex anonymous_class ts" by simp
    from "4.IH"(2) [OF a [symmetric] Inr this]
    obtain e es2 where "traverse_list rt ts = (Inl e, es2)" by blast
    with a Inr show ?thesis by simp
  qed
qed

text \<open>
  C10. The visitor reads \<open>node.id.name\<close> first: on a class declaration whose \<open>id\<close> is
  \<open>null\<close> it raises a \<open>TypeError\<close> before it looks at the decorators, with no effect. When
  the parsed tree contains such a class declaration, the loader raises and returns no
  text.
\<close>

theorem anonymous_class_raises:
  "(class_id c = None \<longrightarrow> visit_ClassDeclaration rt c = (Inl TypeError, [])) \<and>
   (parse source = Inr ast \<and> anonymous_class ast \<longrightarrow>
      (\<exists>e es. transform parse generate rt source = (Inl e, es)))"
proof (intro conjI impI)
  assume "class_id c = None"
  then show "visit_ClassDeclaration rt c = (Inl TypeError, [])"
    by (simp add: visit_ClassDeclaration_def)
next
  assume a: "parse source = Inr ast \<and> anonymous_class ast"
  then obtain e es where "traverse rt ast = (Inl e, es)"
    using traverse_anonymous(1) by blast
  with a show "\<exists>e es. transform parse generate rt source = (Inl e, es)"
    by (simp add: transform_def)
qed

theorem anonymous_class_raises_witness:
  "anonymous_parse ''anonymous.js'' = Inr anonymous_export \<and>
   anonymous_class anonymous_export \<and>
   visit_ClassDeclaration sample_runtime
     \<lparr>class_id = None, decorators = None, superClass = None\<rparr> = (Inl TypeError, []) \<and>
   transform anonymous_parse sample_generate sample_runtime ''anonymous.js'' = (Inl TypeError, [])"
  using anonymous_class_raises [of "\<lparr>class_id = None, decorators = None, superClass = None\<rparr>"
      sample_runtime anonymous_parse "''anonymous.js''" anonymous_export sample_generate]
  by (simp add: visitor_defs anonymous_export_def anonymous_parse_def transform_def)

end
